theory Spec2Isabelle
  imports Main "HOL-Library.Sublist" "HOL-Library.AList"
begin

section \<open>Position calculator\<close>

text \<open>
  \<^verbatim>\<open>get_position_coordinates(img_width, img_height, text_width, text_height, position)\<close>
  of \<^verbatim>\<open>watermark_tool.py\<close>. Python integers are unbounded, so they are \<open>int\<close>;
  Python's \<^verbatim>\<open>//\<close> is floor division, which is \<open>div\<close> on \<open>int\<close>. The branches are
  kept in the order of the source's \<^verbatim>\<open>if/elif\<close> chain.
\<close>

definition margin :: int where
  "margin = 20"

definition get_position_coordinates :: "int \<Rightarrow> int \<Rightarrow> int \<Rightarrow> int \<Rightarrow> string \<Rightarrow> int \<times> int" where
  "get_position_coordinates img_width img_height text_width text_height position =
     (if position = ''top-left'' then (margin, margin)
      else if position = ''top-right'' then (img_width - text_width - margin, margin)
      else if position = ''bottom-left'' then (margin, img_height - text_height - margin)
      else if position = ''bottom-right'' then
        (img_width - text_width - margin, img_height - text_height - margin)
      else if position = ''center'' then
        ((img_width - text_width) div 2, (img_height - text_height) div 2)
      else (margin, margin))"

section \<open>Library model: paths and patterns\<close>

definition sep :: char where
  "sep = CHR ''/''"

definition join :: "string \<Rightarrow> string \<Rightarrow> string" where
  "join a b =
     (if b \<noteq> [] \<and> hd b = sep then b
      else if a = [] \<or> last a = sep then a @ b
      else a @ sep # b)"

definition basename :: "string \<Rightarrow> string" where
  "basename p = rev (takeWhile (\<lambda>c. c \<noteq> sep) (rev p))"

definition rstrip_sep :: "string \<Rightarrow> string" where
  "rstrip_sep p = rev (dropWhile (\<lambda>c. c = sep) (rev p))"

definition split :: "string \<Rightarrow> string \<times> string" where
  "split p =
     (let head = rev (dropWhile (\<lambda>c. c \<noteq> sep) (rev p));
          tail = basename p
      in (if head \<noteq> [] \<and> (\<exists>c \<in> set head. c \<noteq> sep) then rstrip_sep head else head, tail))"

definition splitext :: "string \<Rightarrow> string \<times> string" where
  "splitext p =
     (let after_dot = rev (takeWhile (\<lambda>c. c \<noteq> CHR ''.'') (rev p));
          root = take (length p - length after_dot - 1) p
      in if CHR ''.'' \<in> set (basename p) \<and> (\<exists>c \<in> set (basename root). c \<noteq> CHR ''.'')
         then (root, drop (length root) p)
         else (p, []))"

fun replace_count :: "char \<Rightarrow> char \<Rightarrow> nat \<Rightarrow> string \<Rightarrow> string" where
  "replace_count old new 0 s = s"
| "replace_count old new (Suc n) [] = []"
| "replace_count old new (Suc n) (c # s) =
     (if c = old then new # replace_count old new n s
      else c # replace_count old new (Suc n) s)"

subsection \<open>fnmatch\<close>

datatype cls_tok = Ch char | Dash

datatype cls_item = One char | Range char char

datatype atom = AnyChar | Lit char | Class bool "cls_item list" | Never

datatype pat_tok = Star | Atom atom

fun split_chunks :: "nat \<Rightarrow> string \<Rightarrow> string \<Rightarrow> string list" where
  "split_chunks n cur [] = [cur]"
| "split_chunks 0 cur (c # cs) =
     (if c = CHR ''-'' then cur # split_chunks 2 [] cs else split_chunks 0 (cur @ [c]) cs)"
| "split_chunks (Suc n) cur (c # cs) = split_chunks n (cur @ [c]) cs"

definition close_chunks :: "string list \<Rightarrow> string list" where
  "close_chunks cs =
     (if last cs = [] \<and> butlast cs \<noteq> []
      then butlast (butlast cs) @ [last (butlast cs) @ ''-'']
      else cs)"

fun drop_empty_ranges :: "string list \<Rightarrow> string list" where
  "drop_empty_ranges [] = []"
| "drop_empty_ranges [c] = [c]"
| "drop_empty_ranges (c # cs) =
     (case drop_empty_ranges cs of
        [] \<Rightarrow> [c]
      | d # ds \<Rightarrow>
          if c \<noteq> [] \<and> d \<noteq> [] \<and> (of_char (last c) :: nat) > of_char (hd d)
          then (butlast c @ tl d) # ds
          else c # d # ds)"

fun join_chunks :: "string list \<Rightarrow> cls_tok list" where
  "join_chunks [] = []"
| "join_chunks [c] = map Ch c"
| "join_chunks (c # cs) = map Ch c @ Dash # join_chunks cs"

definition tok_char :: "cls_tok \<Rightarrow> char" where
  "tok_char t = (case t of Ch c \<Rightarrow> c | Dash \<Rightarrow> CHR ''-'')"

fun parse_class :: "cls_tok list \<Rightarrow> cls_item list" where
  "parse_class [] = []"
| "parse_class [t] = [One (tok_char t)]"
| "parse_class [t, Dash] = [One (tok_char t), One (CHR ''-'')]"
| "parse_class (t # Dash # u # rest) = Range (tok_char t) (tok_char u) # parse_class rest"
| "parse_class (t # rest) = One (tok_char t) # parse_class rest"

definition stuff_tokens :: "string \<Rightarrow> cls_tok list" where
  "stuff_tokens stuff =
     (if CHR ''-'' \<notin> set stuff then map Ch stuff
      else join_chunks (drop_empty_ranges (close_chunks
             (split_chunks (if hd stuff = CHR ''!'' then 2 else 1) [] stuff))))"

definition class_atom :: "string \<Rightarrow> atom" where
  "class_atom stuff =
     (let toks = stuff_tokens stuff in
      if toks = [] then Never
      else if toks = [Ch (CHR ''!'')] then AnyChar
      else if hd toks = Ch (CHR ''!'') then Class True (parse_class (tl toks))
      else Class False (parse_class toks))"

definition bracket_end :: "string \<Rightarrow> nat option" where
  "bracket_end rest =
     (let j0 = (if rest \<noteq> [] \<and> hd rest = CHR ''!'' then 1 else 0);
          j1 = (if j0 < length rest \<and> rest ! j0 = CHR '']'' then j0 + 1 else j0);
          j = j1 + length (takeWhile (\<lambda>c. c \<noteq> CHR '']'') (drop j1 rest))
      in if j < length rest then Some j else None)"

function translate :: "string \<Rightarrow> pat_tok list" where
  "translate [] = []"
| "translate (c # rest) =
     (if c = CHR ''*'' then
        (case translate rest of Star # ts \<Rightarrow> Star # ts | ts \<Rightarrow> Star # ts)
      else if c = CHR ''?'' then Atom AnyChar # translate rest
      else if c = CHR ''['' then
        (case bracket_end rest of
           None \<Rightarrow> Atom (Lit (CHR ''['')) # translate rest
         | Some j \<Rightarrow> Atom (class_atom (take j rest)) # translate (drop (Suc j) rest))
      else Atom (Lit c) # translate rest)"
  by pat_completeness auto
termination
  by (relation "measure length") auto

definition item_ok :: "cls_item \<Rightarrow> char \<Rightarrow> bool" where
  "item_ok it c =
     (case it of One x \<Rightarrow> c = x
      | Range lo hi \<Rightarrow> (of_char lo :: nat) \<le> of_char c \<and> (of_char c :: nat) \<le> of_char hi)"

definition atom_ok :: "atom \<Rightarrow> char \<Rightarrow> bool" where
  "atom_ok a c =
     (case a of AnyChar \<Rightarrow> True | Lit x \<Rightarrow> c = x
      | Class neg items \<Rightarrow> (neg \<noteq> (\<exists>it \<in> set items. item_ok it c))
      | Never \<Rightarrow> False)"

fun glob_match :: "pat_tok list \<Rightarrow> string \<Rightarrow> bool" where
  "glob_match [] s = (s = [])"
| "glob_match (Star # ps) [] = glob_match ps []"
| "glob_match (Star # ps) (c # s) = (glob_match ps (c # s) \<or> glob_match (Star # ps) s)"
| "glob_match (Atom a # ps) [] = False"
| "glob_match (Atom a # ps) (c # s) = (atom_ok a c \<and> glob_match ps s)"

definition fnmatch :: "string \<Rightarrow> string \<Rightarrow> bool" where
  "fnmatch name pat = glob_match (translate pat) name"

section \<open>Library model: dates\<close>

subsection \<open>strptime / strftime\<close>

datatype exn =
    FileNotFoundError | IsADirectoryError | NotADirectoryError | FileExistsError
  | UnidentifiedImageError | AttributeError | TypeError | ValueError | OSError

record datetime =
  year :: nat
  month :: nat
  day :: nat
  hour :: nat
  minute :: nat
  second :: nat

definition is_digit :: "char \<Rightarrow> bool" where
  "is_digit c = (48 \<le> (of_char c :: nat) \<and> (of_char c :: nat) \<le> 57)"

definition digit_val :: "char \<Rightarrow> nat" where
  "digit_val c = of_char c - 48"

definition is_space :: "char \<Rightarrow> bool" where
  "is_space c = ((of_char c :: nat) \<in> {9, 10, 11, 12, 13, 28, 29, 30, 31, 32, 133, 160})"

definition field :: "nat \<Rightarrow> nat \<Rightarrow> nat \<Rightarrow> string \<Rightarrow> (nat \<times> string) option" where
  "field lo hi lo1 s =
     (case s of
        [] \<Rightarrow> None
      | a # r \<Rightarrow>
          if \<not> is_digit a then None
          else (case r of
                  b # r' \<Rightarrow>
                    if is_digit b \<and> lo \<le> 10 * digit_val a + digit_val b
                       \<and> 10 * digit_val a + digit_val b \<le> hi
                    then Some (10 * digit_val a + digit_val b, r')
                    else if lo1 \<le> digit_val a then Some (digit_val a, r) else None
                | [] \<Rightarrow> if lo1 \<le> digit_val a then Some (digit_val a, r) else None))"

definition field_d :: "string \<Rightarrow> (nat \<times> string) option" where
  "field_d s =
     (case field 1 31 1 s of
        Some r \<Rightarrow> Some r
      | None \<Rightarrow>
          (case s of
             a # b # r \<Rightarrow>
               if a = CHR '' '' \<and> is_digit b \<and> 1 \<le> digit_val b then Some (digit_val b, r)
               else None
           | _ \<Rightarrow> None))"

definition field_Y :: "string \<Rightarrow> (nat \<times> string) option" where
  "field_Y s =
     (case s of
        a # b # c # d # r \<Rightarrow>
          if is_digit a \<and> is_digit b \<and> is_digit c \<and> is_digit d
          then Some (1000 * digit_val a + 100 * digit_val b + 10 * digit_val c + digit_val d, r)
          else None
      | _ \<Rightarrow> None)"

definition expect :: "char \<Rightarrow> string \<Rightarrow> string option" where
  "expect c s = (case s of [] \<Rightarrow> None | x # r \<Rightarrow> if x = c then Some r else None)"

definition spaces :: "string \<Rightarrow> string option" where
  "spaces s = (if s \<noteq> [] \<and> is_space (hd s) then Some (dropWhile is_space s) else None)"

definition match_format :: "string \<Rightarrow> (datetime \<times> string) option" where
  "match_format s =
     Option.bind (field_Y s) (\<lambda>(Y, r).
     Option.bind (expect (CHR ''-'') r) (\<lambda>r.
     Option.bind (field 1 12 1 r) (\<lambda>(m, r).
     Option.bind (expect (CHR ''-'') r) (\<lambda>r.
     Option.bind (field_d r) (\<lambda>(d, r).
     Option.bind (spaces r) (\<lambda>r.
     Option.bind (field 0 23 0 r) (\<lambda>(H, r).
     Option.bind (expect (CHR '':'') r) (\<lambda>r.
     Option.bind (field 0 59 0 r) (\<lambda>(M, r).
     Option.bind (expect (CHR '':'') r) (\<lambda>r.
     Option.bind (field 0 61 0 r) (\<lambda>(S, r).
       Some (\<lparr>year = Y, month = m, day = d, hour = H, minute = M, second = S\<rparr>, r))))))))))))"

definition is_leap :: "nat \<Rightarrow> bool" where
  "is_leap y = (y mod 4 = 0 \<and> (y mod 100 \<noteq> 0 \<or> y mod 400 = 0))"

definition days_in_month :: "nat \<Rightarrow> nat \<Rightarrow> nat" where
  "days_in_month y m =
     (if m = 2 then (if is_leap y then 29 else 28)
      else if m \<in> {4, 6, 9, 11} then 30 else 31)"

definition strptime :: "string \<Rightarrow> exn + datetime" where
  "strptime s =
     (case match_format s of
        None \<Rightarrow> Inl ValueError
      | Some (dt, rest) \<Rightarrow>
          if rest \<noteq> [] then Inl ValueError
          else if year dt < 1 \<or> day dt > days_in_month (year dt) (month dt) then Inl ValueError
          else if second dt > 59 then Inl ValueError
          else Inr dt)"

definition digit_char :: "nat \<Rightarrow> char" where
  "digit_char n = char_of (48 + n mod 10)"

definition pad2 :: "nat \<Rightarrow> string" where
  "pad2 n = [digit_char (n div 10), digit_char n]"

definition pad4 :: "nat \<Rightarrow> string" where
  "pad4 n = [digit_char (n div 1000), digit_char (n div 100), digit_char (n div 10), digit_char n]"

definition strftime :: "datetime \<Rightarrow> string" where
  "strftime dt = pad4 (year dt) @ ''-'' @ pad2 (month dt) @ ''-'' @ pad2 (day dt)"

section \<open>Environment: files, images, glob\<close>

subsection \<open>Files\<close>

datatype exif_value = StrVal string | BytesVal string | NumVal int

datatype exif_read =
    NoGetexif
  | GetexifRaises exn
  | ExifNone
  | ExifDict "(nat \<times> exif_value) list"

datatype font = TrueType string int | DefaultFont

datatype draw = Text "int \<times> int" string font string

record image =
  mode :: string
  width :: int
  height :: int
  exif :: exif_read
  drawn :: "draw list"

datatype content = Picture image | Garbage

datatype node = Dir | File content

type_synonym npath = "bool \<times> string list"

type_synonym fs = "(npath \<times> node) list"

fun split_sep :: "string \<Rightarrow> string list" where
  "split_sep [] = [[]]"
| "split_sep (c # cs) =
     (if c = sep then [] # split_sep cs
      else (case split_sep cs of [] \<Rightarrow> [[c]] | w # ws \<Rightarrow> (c # w) # ws))"

definition components :: "string \<Rightarrow> string list" where
  "components p = filter (\<lambda>w. w \<noteq> [] \<and> w \<noteq> ''.'') (split_sep p)"

definition key :: "string \<Rightarrow> npath" where
  "key p = (p \<noteq> [] \<and> hd p = sep, components p)"

definition lookup :: "fs \<Rightarrow> string \<Rightarrow> node option" where
  "lookup fs p =
     (if p = [] then None
      else if components p = [] then Some Dir
      else map_of fs (key p))"

definition lexists :: "fs \<Rightarrow> string \<Rightarrow> bool" where
  "lexists fs p = (lookup fs p \<noteq> None)"

definition isdir :: "fs \<Rightarrow> string \<Rightarrow> bool" where
  "isdir fs p = (lookup fs p = Some Dir)"

definition isfile :: "fs \<Rightarrow> string \<Rightarrow> bool" where
  "isfile fs p = (case lookup fs p of Some (File c) \<Rightarrow> True | _ \<Rightarrow> False)"

definition valid_name :: "string \<Rightarrow> bool" where
  "valid_name n = (n \<noteq> [] \<and> n \<noteq> ''.'' \<and> n \<noteq> ''..'' \<and> sep \<notin> set n)"

definition scandir :: "fs \<Rightarrow> npath \<Rightarrow> bool \<Rightarrow> string list" where
  "scandir fs d dironly =
     map (\<lambda>k. last (snd k))
       (filter (\<lambda>k. fst k = fst d \<and> snd k \<noteq> [] \<and> butlast (snd k) = snd d
                    \<and> valid_name (last (snd k)) \<and> (dironly \<longrightarrow> map_of fs k = Some Dir))
          (remdups (map fst fs)))"

definition listdir :: "fs \<Rightarrow> string \<Rightarrow> bool \<Rightarrow> string list" where
  "listdir fs dirname dironly =
     (if dirname = [] then scandir fs (False, []) dironly
      else if isdir fs dirname then scandir fs (key dirname) dironly
      else [])"

definition ancestors :: "npath \<Rightarrow> npath list" where
  "ancestors k = map (\<lambda>n. (fst k, take n (snd k))) [1..<Suc (length (snd k))]"

definition mkdir_missing :: "npath \<Rightarrow> fs \<Rightarrow> fs" where
  "mkdir_missing a fs = (if map_of fs a = None then AList.update a Dir fs else fs)"

definition makedirs :: "fs \<Rightarrow> string \<Rightarrow> exn + fs" where
  "makedirs fs name =
     (if name = [] then Inl FileNotFoundError
      else if \<exists>a \<in> set (ancestors (key name)). map_of fs a \<noteq> None \<and> map_of fs a \<noteq> Some Dir
      then Inl (if map_of fs (key name) \<noteq> None \<and> map_of fs (key name) \<noteq> Some Dir
                then FileExistsError else NotADirectoryError)
      else Inr (fold mkdir_missing (ancestors (key name)) fs))"

definition image_open :: "fs \<Rightarrow> string \<Rightarrow> exn + image" where
  "image_open fs p =
     (case lookup fs p of
        None \<Rightarrow> Inl FileNotFoundError
      | Some Dir \<Rightarrow> Inl IsADirectoryError
      | Some (File Garbage) \<Rightarrow> Inl UnidentifiedImageError
      | Some (File (Picture img)) \<Rightarrow> Inr img)"

record env =
  truetype_ok :: "string \<Rightarrow> int \<Rightarrow> bool"
  textbbox :: "font \<Rightarrow> string \<Rightarrow> exn + (int \<times> int \<times> int \<times> int)"
  color_ok :: "string \<Rightarrow> bool"
  encoder_error :: "string \<Rightarrow> exn option"

definition parent :: "npath \<Rightarrow> npath" where
  "parent k = (fst k, butlast (snd k))"

definition save :: "env \<Rightarrow> fs \<Rightarrow> string \<Rightarrow> image \<Rightarrow> exn + fs" where
  "save e fs p img =
     (case encoder_error e p of
        Some x \<Rightarrow> Inl x
      | None \<Rightarrow>
          if p = [] then Inl FileNotFoundError
          else if components p = [] then Inl IsADirectoryError
          else if snd (parent (key p)) \<noteq> [] \<and> map_of fs (parent (key p)) \<noteq> Some Dir
          then Inl FileNotFoundError
          else if map_of fs (key p) = Some Dir then Inl IsADirectoryError
          else Inr (AList.update (key p) (File (Picture img)) fs))"

subsection \<open>glob\<close>

definition has_magic :: "string \<Rightarrow> bool" where
  "has_magic s = (\<exists>c \<in> set s. c = CHR ''*'' \<or> c = CHR ''?'' \<or> c = CHR ''['')"

definition ishidden :: "string \<Rightarrow> bool" where
  "ishidden p = (p \<noteq> [] \<and> hd p = CHR ''.'')"

definition glob_join :: "string \<Rightarrow> string \<Rightarrow> string" where
  "glob_join dirname base =
     (if dirname = [] \<or> base = [] then (if dirname \<noteq> [] then dirname else base)
      else join dirname base)"

definition glob1 :: "fs \<Rightarrow> string \<Rightarrow> string \<Rightarrow> bool \<Rightarrow> string list" where
  "glob1 fs dirname pattern dironly =
     (let names = listdir fs dirname dironly;
          names = (if \<not> ishidden pattern then filter (\<lambda>x. \<not> ishidden x) names else names)
      in filter (\<lambda>name. fnmatch name pattern) names)"

definition glob0 :: "fs \<Rightarrow> string \<Rightarrow> string \<Rightarrow> bool \<Rightarrow> string list" where
  "glob0 fs dirname base dironly =
     (if base \<noteq> [] then (if lexists fs (glob_join dirname base) then [base] else [])
      else (if isdir fs dirname then [base] else []))"

lemma rev_dropWhile_rev_take:
  "rev (dropWhile P (rev p)) = take (length p - length (takeWhile P (rev p))) p"
proof -
  have "rev p = takeWhile P (rev p) @ dropWhile P (rev p)" by simp
  then have "p = rev (dropWhile P (rev p)) @ rev (takeWhile P (rev p))"
    by (metis rev_append rev_rev_ident)
  then show ?thesis
    by (metis append_eq_conv_conj length_append length_rev add_diff_cancel_right')
qed

lemma split_head_take: "\<exists>n. fst (split p) = take n p"
proof -
  obtain m where m: "rev (dropWhile (\<lambda>c. c \<noteq> sep) (rev p)) = take m p"
    using rev_dropWhile_rev_take by blast
  obtain k where k: "rev (dropWhile (\<lambda>c. c = sep) (rev (take m p))) = take k (take m p)"
    using rev_dropWhile_rev_take by blast
  have "take k (take m p) = take (min k m) p" by simp
  with m k show ?thesis
    unfolding split_def Let_def rstrip_sep_def by (auto simp del: take_take)
qed

lemma split_head_shorter: "fst (split p) \<noteq> p \<Longrightarrow> length (fst (split p)) < length p"
proof -
  assume ne: "fst (split p) \<noteq> p"
  obtain n where n: "fst (split p) = take n p" using split_head_take by blast
  with ne have "n < length p" by (metis take_all not_le_imp_less)
  with n show ?thesis by simp
qed

function iglob :: "fs \<Rightarrow> string \<Rightarrow> bool \<Rightarrow> string list" where
  "iglob fs pathname dironly =
     (if \<not> has_magic pathname then
        (if snd (split pathname) \<noteq> [] then (if lexists fs pathname then [pathname] else [])
         else (if isdir fs (fst (split pathname)) then [pathname] else []))
      else if fst (split pathname) = [] then glob1 fs [] (snd (split pathname)) dironly
      else concat (map (\<lambda>d. map (join d)
                     ((if has_magic (snd (split pathname)) then glob1 else glob0)
                        fs d (snd (split pathname)) dironly))
                   (if fst (split pathname) \<noteq> pathname \<and> has_magic (fst (split pathname))
                    then iglob fs (fst (split pathname)) True
                    else [fst (split pathname)])))"
  by pat_completeness auto
termination
  by (relation "measure (\<lambda>(fs, p, d). length p)") (auto dest: split_head_shorter)

definition glob :: "fs \<Rightarrow> string \<Rightarrow> string list" where
  "glob fs pathname = iglob fs pathname False"

section \<open>The tool\<close>

subsection \<open>Console output\<close>

datatype msg =
    Warning string exn
  | Success string string
  | ErrorProcessing string exn
  | NoImagesFound
  | Processed nat string
  | DirMissing string
  | ProcessingIn string
  | Settings int string string
  | Rule

subsection \<open>EXIF date extraction\<close>

definition TAGS :: "nat \<Rightarrow> string option" where
  "TAGS = map_of
     [(271, ''Make''), (272, ''Model''), (274, ''Orientation''), (305, ''Software''),
      (306, ''DateTime''), (34665, ''ExifOffset''), (36867, ''DateTimeOriginal''),
      (36868, ''DateTimeDigitized'')]"

definition parse_value :: "exif_value \<Rightarrow> exn + string" where
  "parse_value v =
     (case v of
        StrVal s \<Rightarrow>
          (case strptime (replace_count (CHR '':'') (CHR ''-'') 2 s) of
             Inl e \<Rightarrow> Inl e
           | Inr dt_obj \<Rightarrow> Inr (strftime dt_obj))
      | BytesVal b \<Rightarrow> Inl TypeError
      | NumVal n \<Rightarrow> Inl AttributeError)"

fun scan_exif :: "(nat \<times> exif_value) list \<Rightarrow> exn + string option" where
  "scan_exif [] = Inr None"
| "scan_exif ((tag_id, v) # items) =
     (if TAGS tag_id = Some ''DateTime'' then
        (case parse_value v of Inl e \<Rightarrow> Inl e | Inr s \<Rightarrow> Inr (Some s))
      else scan_exif items)"

definition read_exif_datetime :: "fs \<Rightarrow> string \<Rightarrow> exn + string option" where
  "read_exif_datetime fs image_path =
     (case image_open fs image_path of
        Inl e \<Rightarrow> Inl e
      | Inr img \<Rightarrow>
          (case exif img of
             NoGetexif \<Rightarrow> Inl AttributeError
           | GetexifRaises e \<Rightarrow> Inl e
           | ExifNone \<Rightarrow> Inr None
           | ExifDict exif_data \<Rightarrow> if exif_data = [] then Inr None else scan_exif exif_data))"

definition get_exif_datetime :: "fs \<Rightarrow> string \<Rightarrow> string option \<times> msg list" where
  "get_exif_datetime fs image_path =
     (case read_exif_datetime fs image_path of
        Inl e \<Rightarrow> (None, [Warning image_path e])
      | Inr r \<Rightarrow> (r, []))"

subsection \<open>Watermark renderer\<close>

definition load_font :: "env \<Rightarrow> int \<Rightarrow> font" where
  "load_font e font_size =
     (if truetype_ok e ''arial.ttf'' font_size then TrueType ''arial.ttf'' font_size
      else if truetype_ok e ''DejaVuSans.ttf'' font_size then TrueType ''DejaVuSans.ttf'' font_size
      else DefaultFont)"

definition draw_text :: "env \<Rightarrow> image \<Rightarrow> int \<times> int \<Rightarrow> string \<Rightarrow> font \<Rightarrow> string \<Rightarrow> exn + image" where
  "draw_text e img xy text fnt fill =
     (if color_ok e fill then Inr (img\<lparr>drawn := drawn img @ [Text xy text fnt fill]\<rparr>)
      else Inl ValueError)"

definition render ::
  "env \<Rightarrow> fs \<Rightarrow> string \<Rightarrow> string \<Rightarrow> int \<Rightarrow> string \<Rightarrow> string \<Rightarrow> string \<Rightarrow> exn + fs" where
  "render e fs image_path output_path font_size color position watermark_text =
     (case image_open fs image_path of
        Inl x \<Rightarrow> Inl x
      | Inr opened \<Rightarrow>
          let img = (if mode opened \<noteq> ''RGB'' then opened\<lparr>mode := ''RGB''\<rparr> else opened);
              fnt = load_font e font_size
          in (case textbbox e fnt watermark_text of
                Inl x \<Rightarrow> Inl x
              | Inr (b0, b1, b2, b3) \<Rightarrow>
                  let text_width = b2 - b0;
                      text_height = b3 - b1;
                      xy = get_position_coordinates (width img) (height img)
                             text_width text_height position;
                      shadow_color = (if color = ''white'' then ''black'' else ''white'')
                  in (case draw_text e img (fst xy + 2, snd xy + 2) watermark_text fnt shadow_color of
                        Inl x \<Rightarrow> Inl x
                      | Inr img1 \<Rightarrow>
                          (case draw_text e img1 xy watermark_text fnt color of
                             Inl x \<Rightarrow> Inl x
                           | Inr img2 \<Rightarrow> save e fs output_path img2))))"

definition watermark_text_of :: "string option \<Rightarrow> string" where
  "watermark_text_of r = (case r of None \<Rightarrow> ''No-Date'' | Some t \<Rightarrow> if t = [] then ''No-Date'' else t)"

definition add_watermark ::
  "env \<Rightarrow> fs \<Rightarrow> string \<Rightarrow> string \<Rightarrow> int \<Rightarrow> string \<Rightarrow> string \<Rightarrow> msg list \<times> fs" where
  "add_watermark e fs image_path output_path font_size color position =
     (let (r, warnings) = get_exif_datetime fs image_path;
          watermark_text = watermark_text_of r
      in (case render e fs image_path output_path font_size color position watermark_text of
            Inl x \<Rightarrow> (warnings @ [ErrorProcessing image_path x], fs)
          | Inr fs' \<Rightarrow> (warnings @ [Success image_path output_path], fs')))"

subsection \<open>Directory batch driver\<close>

definition image_extensions :: "string list" where
  "image_extensions = [''*.jpg'', ''*.jpeg'', ''*.png'', ''*.bmp'', ''*.tiff'', ''*.webp'']"

definition output_dir_of :: "string \<Rightarrow> string" where
  "output_dir_of input_dir = join input_dir (basename input_dir @ ''_watermark'')"

definition output_path_of :: "string \<Rightarrow> string \<Rightarrow> string" where
  "output_path_of output_dir image_path =
     (let filename = basename image_path;
          (name, ext) = splitext filename;
          output_filename = name @ ''_watermarked'' @ ext
      in join output_dir output_filename)"

type_synonym run_state = "msg list \<times> fs \<times> nat"

fun process_files ::
  "env \<Rightarrow> string \<Rightarrow> int \<Rightarrow> string \<Rightarrow> string \<Rightarrow> string list \<Rightarrow> run_state \<Rightarrow> run_state" where
  "process_files e output_dir font_size color position [] st = st"
| "process_files e output_dir font_size color position (image_path # rest) (out, fs, processed_count) =
     (if isfile fs image_path then
        (let (printed, fs') = add_watermark e fs image_path (output_path_of output_dir image_path)
                                font_size color position
         in process_files e output_dir font_size color position rest
              (out @ printed, fs', processed_count + 1))
      else process_files e output_dir font_size color position rest (out, fs, processed_count))"

fun process_patterns ::
  "env \<Rightarrow> string \<Rightarrow> string \<Rightarrow> int \<Rightarrow> string \<Rightarrow> string \<Rightarrow> string list \<Rightarrow> run_state \<Rightarrow> run_state" where
  "process_patterns e input_dir output_dir font_size color position [] st = st"
| "process_patterns e input_dir output_dir font_size color position (ext # exts) (out, fs, n) =
     process_patterns e input_dir output_dir font_size color position exts
       (process_files e output_dir font_size color position (glob fs (join input_dir ext))
          (out, fs, n))"

definition process_directory ::
  "env \<Rightarrow> fs \<Rightarrow> string \<Rightarrow> int \<Rightarrow> string \<Rightarrow> string \<Rightarrow> exn + (msg list \<times> fs)" where
  "process_directory e fs input_dir font_size color position =
     (let output_dir = output_dir_of input_dir
      in (case makedirs fs output_dir of
            Inl x \<Rightarrow> Inl x
          | Inr fs1 \<Rightarrow>
              (case process_patterns e input_dir output_dir font_size color position
                      image_extensions ([], fs1, 0) of
                 (out, fs2, processed_count) \<Rightarrow>
                   Inr (out @ [if processed_count = 0 then NoImagesFound
                               else Processed processed_count output_dir], fs2))))"

subsection \<open>Entry point\<close>

record args =
  input_dir :: string
  font_size :: int
  color :: string
  position :: string

datatype outcome = Returned | Exit nat | Uncaught exn

definition main :: "env \<Rightarrow> fs \<Rightarrow> args \<Rightarrow> outcome \<times> msg list \<times> fs" where
  "main e fs a =
     (if \<not> isdir fs (input_dir a) then (Exit 1, [DirMissing (input_dir a)], fs)
      else
        (let banner = [ProcessingIn (input_dir a),
                       Settings (font_size a) (color a) (position a), Rule]
         in (case process_directory e fs (input_dir a) (font_size a) (color a) (position a) of
               Inl x \<Rightarrow> (Uncaught x, banner, fs)
             | Inr (out, fs') \<Rightarrow> (Returned, banner @ out, fs'))))"

section \<open>Vocabulary of the properties\<close>










section \<open>Sample data\<close>

text \<open>
  A directory \<^verbatim>\<open>photos\<close> with one picture without metadata, one file that is no image,
  one picture carrying the timestamp of the specification, and one text file; an
  environment without TrueType fonts whose built-in font is 10 pixels wide per character
  and 12 pixels high.
\<close>

definition demo_env :: env where
  "demo_env = \<lparr>truetype_ok = (\<lambda>name size. False),
                textbbox = (\<lambda>fnt text. Inr (0, 0, 10 * int (length text), 12)),
                color_ok = (\<lambda>c. c \<in> set [''white'', ''black'', ''red'', ''blue'', ''green'']),
                encoder_error = (\<lambda>p. None)\<rparr>"

definition plain_image :: image where
  "plain_image = \<lparr>mode = ''RGB'', width = 800, height = 600, exif = ExifNone, drawn = []\<rparr>"

definition dated_image :: image where
  "dated_image = \<lparr>mode = ''L'', width = 640, height = 480,
                   exif = ExifDict [(271, StrVal ''Cam''), (306, StrVal ''2023:05:17 10:30:00'')],
                   drawn = []\<rparr>"

definition demo_args :: args where
  "demo_args = \<lparr>input_dir = ''photos'', font_size = 36, color = ''white'',
                 position = ''bottom-right''\<rparr>"

definition mixed_fs :: fs where
  "mixed_fs = [((False, [''photos'']), Dir),
               ((False, [''photos'', ''a.jpg'']), File (Picture plain_image)),
               ((False, [''photos'', ''b.jpg'']), File Garbage),
               ((False, [''photos'', ''c.png'']), File (Picture dated_image)),
               ((False, [''photos'', ''notes.txt'']), File Garbage)]"





section \<open>Properties of the position calculator\<close>

text \<open>
  Claim C1. For all image and text dimensions the calculator returns the documented
  coordinates with the fixed margin of 20 pixels: (20, 20) for top-left,
  (W - tw - 20, 20) for top-right, (20, H - th - 20) for bottom-left,
  (W - tw - 20, H - th - 20) for bottom-right, ((W - tw) div 2, (H - th) div 2) for
  center, and (20, 20) for every keyword that is none of the five.
\<close>

theorem position_coordinates_formula:
  "get_position_coordinates W H tw th ''top-left'' = (20, 20)
   \<and> get_position_coordinates W H tw th ''top-right'' = (W - tw - 20, 20)
   \<and> get_position_coordinates W H tw th ''bottom-left'' = (20, H - th - 20)
   \<and> get_position_coordinates W H tw th ''bottom-right'' = (W - tw - 20, H - th - 20)
   \<and> get_position_coordinates W H tw th ''center'' = ((W - tw) div 2, (H - th) div 2)
   \<and> (p \<notin> {''top-left'', ''top-right'', ''bottom-left'', ''bottom-right'', ''center''}
        \<longrightarrow> get_position_coordinates W H tw th p = (20, 20))"
  by (simp add: get_position_coordinates_def margin_def)

theorem position_coordinates_formula_witness:
  "get_position_coordinates 800 600 120 30 ''top-left'' = (20, 20)
   \<and> get_position_coordinates 800 600 120 30 ''top-right'' = (660, 20)
   \<and> get_position_coordinates 800 600 120 30 ''bottom-left'' = (20, 550)
   \<and> get_position_coordinates 800 600 120 30 ''bottom-right'' = (660, 550)
   \<and> get_position_coordinates 800 600 120 30 ''center'' = (340, 285)
   \<and> ''middle'' \<notin> {''top-left'', ''top-right'', ''bottom-left'', ''bottom-right'', ''center''}
   \<and> get_position_coordinates 800 600 120 30 ''middle'' = (20, 20)"
  using position_coordinates_formula [of 800 600 120 30 "''middle''"]
  by simp

text \<open>
  Claim C10, as stated, says that the x coordinate is negative whenever
  \<open>text_width + 20\<close> exceeds \<open>img_width\<close>, for every keyword. At the keyword top-left the
  text is wider than the room left by the margin and the x coordinate is still 20.
\<close>

theorem position_negative_counterexample:
  "(90::int) + 20 > 100
   \<and> \<not> fst (get_position_coordinates 100 100 90 90 ''top-left'') < 0
   \<and> \<not> snd (get_position_coordinates 100 100 90 90 ''top-left'') < 0"
  by (simp add: get_position_coordinates_def margin_def)

text \<open>
  Claim C10, amended. The calculator is total and never clamps. The x coordinate is
  negative exactly when \<open>text_width + 20 > img_width\<close> for the right-anchored keywords
  (top-right, bottom-right); the y coordinate is negative exactly when
  \<open>text_height + 20 > img_height\<close> for the bottom-anchored keywords (bottom-left,
  bottom-right); for center a coordinate is negative exactly when the text is larger
  than the image in that dimension; every other coordinate is the margin, 20.
\<close>

theorem position_not_clamped:
  "(\<exists>x y. get_position_coordinates W H tw th p = (x, y))
   \<and> (p \<in> {''top-right'', ''bottom-right''} \<longrightarrow>
        (fst (get_position_coordinates W H tw th p) < 0 \<longleftrightarrow> tw + 20 > W))
   \<and> (p \<in> {''bottom-left'', ''bottom-right''} \<longrightarrow>
        (snd (get_position_coordinates W H tw th p) < 0 \<longleftrightarrow> th + 20 > H))
   \<and> (p = ''center'' \<longrightarrow>
        (fst (get_position_coordinates W H tw th p) < 0 \<longleftrightarrow> tw > W)
        \<and> (snd (get_position_coordinates W H tw th p) < 0 \<longleftrightarrow> th > H))
   \<and> (p \<notin> {''top-right'', ''bottom-right'', ''center''} \<longrightarrow>
        fst (get_position_coordinates W H tw th p) = 20)
   \<and> (p \<notin> {''bottom-left'', ''bottom-right'', ''center''} \<longrightarrow>
        snd (get_position_coordinates W H tw th p) = 20)"
  unfolding get_position_coordinates_def margin_def
  by (simp; intro conjI impI; simp?; linarith?)

theorem position_not_clamped_witness:
  "fst (get_position_coordinates 100 100 90 90 ''bottom-right'') < 0
   \<and> snd (get_position_coordinates 100 100 90 90 ''bottom-right'') < 0
   \<and> fst (get_position_coordinates 100 100 90 90 ''bottom-right'') = -10
   \<and> (fst (get_position_coordinates 100 100 120 90 ''center'') < 0)
   \<and> fst (get_position_coordinates 100 100 90 90 ''bottom-left'') = 20"
  using position_not_clamped [of 100 100 90 90 "''bottom-right''"]
    position_not_clamped [of 100 100 120 90 "''center''"]
    position_not_clamped [of 100 100 90 90 "''bottom-left''"]
  by (simp add: get_position_coordinates_def margin_def)

section \<open>Properties of the EXIF date extraction\<close>


















section \<open>Properties of the watermark renderer\<close>

lemma lookup_after_save:
  assumes "save e fs out img = Inr fs'"
  shows "lookup fs' out = Some (File (Picture img))"
proof -
  from assms have ne: "out \<noteq> []" and c: "components out \<noteq> []"
    and fs': "fs' = AList.update (key out) (File (Picture img)) fs"
    by (auto simp add: save_def split: option.splits if_splits)
  show ?thesis using ne c by (simp add: lookup_def fs' update_conv')
qed

lemma render_saved:
  assumes "render e fs p out sz c pos text = Inr fs'"
  shows "\<exists>img xy fnt. image_open fs p = Inr img \<and>
           lookup fs' out = Some (File (Picture (img\<lparr>mode := ''RGB'',
             drawn := drawn img @
               [Text (fst xy + 2, snd xy + 2) text fnt (if c = ''white'' then ''black'' else ''white''),
                Text xy text fnt c]\<rparr>)))"
proof -
  from assms obtain img where op: "image_open fs p = Inr img"
    by (auto simp add: render_def split: sum.splits)
  define im where "im = (if mode img \<noteq> ''RGB'' then img\<lparr>mode := ''RGB''\<rparr> else img)"
  have im_eq: "im = img\<lparr>mode := ''RGB''\<rparr>"
    by (cases "mode img = ''RGB''") (simp_all add: im_def)
  define fnt where "fnt = load_font e sz"
  from assms op obtain b0 b1 b2 b3 where bb: "textbbox e fnt text = Inr (b0, b1, b2, b3)"
    by (auto simp add: render_def fnt_def Let_def split: sum.splits)
  define xy where "xy = get_position_coordinates (width im) (height im) (b2 - b0) (b3 - b1) pos"
  define sh where "sh = (if c = ''white'' then ''black'' else ''white'')"
  from assms op bb have
    sv: "save e fs out (im\<lparr>drawn := drawn im @ [Text (fst xy + 2, snd xy + 2) text fnt sh]\<rparr>
                         \<lparr>drawn := drawn (im\<lparr>drawn := drawn im @ [Text (fst xy + 2, snd xy + 2) text fnt sh]\<rparr>)
                                   @ [Text xy text fnt c]\<rparr>) = Inr fs'"
    by (auto simp add: render_def Let_def draw_text_def im_def [symmetric] fnt_def [symmetric]
        xy_def [symmetric] sh_def [symmetric] split: sum.splits if_splits)
  have "lookup fs' out = Some (File (Picture (im\<lparr>drawn := drawn im @
          [Text (fst xy + 2, snd xy + 2) text fnt sh, Text xy text fnt c]\<rparr>)))"
    using lookup_after_save [OF sv] by simp
  then show ?thesis using op unfolding im_eq sh_def by (intro exI [of _ img] exI [of _ xy] exI [of _ fnt]) simp
qed

text \<open>
  Claim C3. When the extraction yields no value, the renderer works with the text
  \<^verbatim>\<open>No-Date\<close>: its result is that of rendering this text, an exception of the rendering
  becomes an error message and leaves the files as they were, and when the rendering
  succeeds the destination holds the picture with exactly two more texts drawn, the shadow
  and the main text, both \<^verbatim>\<open>No-Date\<close>. The renderer always returns to its caller: its
  result is a pair of messages and files, never an exception.
\<close>

theorem no_date_fallback:
  assumes "fst (get_exif_datetime fs p) = None"
  shows "add_watermark e fs p out sz c pos =
           (case render e fs p out sz c pos ''No-Date'' of
              Inl x \<Rightarrow> (snd (get_exif_datetime fs p) @ [ErrorProcessing p x], fs)
            | Inr fs' \<Rightarrow> (snd (get_exif_datetime fs p) @ [Success p out], fs'))
         \<and> (\<forall>fs'. render e fs p out sz c pos ''No-Date'' = Inr fs' \<longrightarrow>
              (\<exists>img xy fnt. image_open fs p = Inr img \<and>
                 lookup fs' out = Some (File (Picture (img\<lparr>mode := ''RGB'',
                   drawn := drawn img @
                     [Text (fst xy + 2, snd xy + 2) ''No-Date'' fnt
                        (if c = ''white'' then ''black'' else ''white''),
                      Text xy ''No-Date'' fnt c]\<rparr>)))))"
proof -
  obtain r w where g: "get_exif_datetime fs p = (r, w)" by (cases "get_exif_datetime fs p")
  with assms have r: "r = None" by simp
  have first: "add_watermark e fs p out sz c pos =
           (case render e fs p out sz c pos ''No-Date'' of
              Inl x \<Rightarrow> (snd (get_exif_datetime fs p) @ [ErrorProcessing p x], fs)
            | Inr fs' \<Rightarrow> (snd (get_exif_datetime fs p) @ [Success p out], fs'))"
    by (simp add: add_watermark_def g r watermark_text_of_def split: sum.splits)
  show ?thesis
    by (rule conjI [OF first]) (blast dest: render_saved)
qed

theorem no_date_fallback_witness:
  "fst (get_exif_datetime mixed_fs ''photos/a.jpg'') = None
   \<and> add_watermark demo_env mixed_fs ''photos/a.jpg'' ''photos/a_watermarked.jpg'' 36 ''white''
         ''bottom-right''
       = ([Success ''photos/a.jpg'' ''photos/a_watermarked.jpg''],
          mixed_fs @ [((False, [''photos'', ''a_watermarked.jpg'']),
             File (Picture (plain_image\<lparr>drawn :=
                [Text (712, 570) ''No-Date'' DefaultFont ''black'',
                 Text (710, 568) ''No-Date'' DefaultFont ''white'']\<rparr>)))])
   \<and> add_watermark demo_env mixed_fs ''photos/b.jpg'' ''photos/b_watermarked.jpg'' 36 ''white''
         ''bottom-right''
       = ([Warning ''photos/b.jpg'' UnidentifiedImageError,
           ErrorProcessing ''photos/b.jpg'' UnidentifiedImageError], mixed_fs)"
proof -
  have h: "fst (get_exif_datetime mixed_fs ''photos/a.jpg'') = None" by code_simp
  have g: "snd (get_exif_datetime mixed_fs ''photos/a.jpg'') = []" by code_simp
  have r: "render demo_env mixed_fs ''photos/a.jpg'' ''photos/a_watermarked.jpg'' 36 ''white''
             ''bottom-right'' ''No-Date''
           = Inr (mixed_fs @ [((False, [''photos'', ''a_watermarked.jpg'']),
             File (Picture (plain_image\<lparr>drawn :=
                [Text (712, 570) ''No-Date'' DefaultFont ''black'',
                 Text (710, 568) ''No-Date'' DefaultFont ''white'']\<rparr>)))])"
    by code_simp
  have h2: "fst (get_exif_datetime mixed_fs ''photos/b.jpg'') = None" by code_simp
  have g2: "snd (get_exif_datetime mixed_fs ''photos/b.jpg'')
            = [Warning ''photos/b.jpg'' UnidentifiedImageError]" by code_simp
  have r2: "render demo_env mixed_fs ''photos/b.jpg'' ''photos/b_watermarked.jpg'' 36 ''white''
             ''bottom-right'' ''No-Date'' = Inl UnidentifiedImageError"
    by code_simp
  show ?thesis
    using no_date_fallback [OF h, of demo_env "''photos/a_watermarked.jpg''" 36 "''white''"
        "''bottom-right''"]
      no_date_fallback [OF h2, of demo_env "''photos/b_watermarked.jpg''" 36 "''white''"
        "''bottom-right''"] h g r g2 r2
    by simp
qed

section \<open>Properties of the entry point\<close>

text \<open>
  Claim C7. When the input directory argument does not name an existing directory, the
  program prints the error message and exits with status 1; nothing else is printed (no
  file was processed) and the files are untouched (no output directory was created).
\<close>

theorem main_rejects_missing_directory:
  "\<not> isdir fs (input_dir a) \<Longrightarrow>
     main e fs a = (Exit 1, [DirMissing (input_dir a)], fs) \<and> (1::nat) \<noteq> 0"
  by (simp add: main_def)

lemma components_photos: "components ''photos'' = [''photos'']"
  by (simp add: components_def sep_def)

theorem main_rejects_missing_directory_witness:
  "\<not> isdir [] (input_dir demo_args)
   \<and> main demo_env [] demo_args = (Exit 1, [DirMissing ''photos''], [])"
  using main_rejects_missing_directory [of "[]" demo_args demo_env]
  by (simp add: isdir_def lookup_def demo_args_def components_photos)

section \<open>Properties of the batch driver\<close>

subsection \<open>The reported count\<close>










end
